theory Spec2Isabelle
  imports Main "HOL-Library.Sublist"
begin

section \<open>The C3 compiler backend of mesonbuild/compilers/c3.py\<close>

text \<open>
  The development embeds the module \<^verbatim>\<open>mesonbuild/compilers/c3.py\<close>: the table
  \<^verbatim>\<open>c3_optimization_args\<close> and the methods of \<^verbatim>\<open>C3Compiler\<close>. Python strings are
  \<^typ>\<open>string\<close>, lists of strings are \<^typ>\<open>string list\<close>, a raised exception is the
  left injection of a sum.
\<close>

subsection \<open>Exceptions\<close>

text \<open>
  \<^verbatim>\<open>KeyError\<close> is what a failed dictionary subscript raises, \<^verbatim>\<open>EnvironmentException\<close>
  is raised by \<^verbatim>\<open>sanity_check\<close>, and \<^verbatim>\<open>OSError\<close> stands for whatever \<^verbatim>\<open>open\<close>,
  \<^verbatim>\<open>subprocess.Popen\<close> or \<^verbatim>\<open>subprocess.call\<close> raise themselves (a missing executable,
  an unwritable directory).
\<close>

datatype error = KeyError string | EnvironmentException string | OSError string

subsection \<open>The flag table\<close>

text \<open>The dictionary literal of lines 23 to 34, in source order.\<close>

definition c3_optimization_args :: "(string \<times> string list) list" where
  "c3_optimization_args =
    [(''plain'', []),
     (''0'', [''-O0'']),
     (''g'', [''-Og'']),
     (''1'', [''-O1'']),
     (''2'', [''-O2'']),
     (''3'', [''-O3'']),
     (''s'', [''-Os'']),
     (''4'', [''-O4'']),
     (''5'', [''-O5'']),
     (''z'', [''-Oz''])]"

text \<open>
  \<^verbatim>\<open>return c3_optimization_args[optimization_level]\<close>: the subscript raises
  \<^verbatim>\<open>KeyError\<close> with the key when the key is absent.
\<close>

definition get_optimization_args :: "string \<Rightarrow> error + string list" where
  "get_optimization_args optimization_level =
    (case map_of c3_optimization_args optimization_level of
       None \<Rightarrow> Inl (KeyError optimization_level)
     | Some args \<Rightarrow> Inr args)"

text \<open>The closed set of levels the specification names.\<close>

definition optimization_levels :: "string set" where
  "optimization_levels =
    {''plain'', ''0'', ''g'', ''1'', ''2'', ''3'', ''s'', ''4'', ''5'', ''z''}"

subsection \<open>The constant methods\<close>

definition get_pic_args :: "string list" where
  "get_pic_args = []"

definition get_pie_args :: "string list" where
  "get_pie_args = []"

definition needs_static_linker :: bool where
  "needs_static_linker = True"

definition get_werror_args :: "string list" where
  "get_werror_args = []"

definition get_dependency_gen_args :: "string \<Rightarrow> string \<Rightarrow> string list" where
  "get_dependency_gen_args outtarget outfile = []"

definition depfile_for_object :: "string \<Rightarrow> string option" where
  "depfile_for_object objfile = None"

definition get_depfile_suffix :: string where
  "get_depfile_suffix = ''d''"

definition get_output_args :: "string \<Rightarrow> string list" where
  "get_output_args target = [''-o'', target]"

definition get_warn_args :: "string \<Rightarrow> string list" where
  "get_warn_args level = []"

definition get_std_exe_link_args :: "string list" where
  "get_std_exe_link_args = []"

definition get_include_args :: "string \<Rightarrow> bool \<Rightarrow> string list" where
  "get_include_args path is_system = [''--libdir'', path]"

definition get_compile_only_args :: "string list" where
  "get_compile_only_args = [''compile-only'']"

subsection \<open>The path functions of the POSIX os.path\<close>

text \<open>
  \<^verbatim>\<open>os.path.join\<close> and \<^verbatim>\<open>os.path.normpath\<close> belong to the Python standard library;
  they are embedded here from \<^verbatim>\<open>posixpath.py\<close>, the module \<^verbatim>\<open>os.path\<close> is on every
  POSIX host, with the separator \<^verbatim>\<open>/\<close>.
\<close>

abbreviation sep :: char where
  "sep \<equiv> CHR ''/''"

text \<open>\<^verbatim>\<open>s.startswith(sep)\<close> and \<^verbatim>\<open>s.endswith(sep)\<close>.\<close>

definition startswith_sep :: "string \<Rightarrow> bool" where
  "startswith_sep s = (case s of [] \<Rightarrow> False | c # _ \<Rightarrow> c = sep)"

definition endswith_sep :: "string \<Rightarrow> bool" where
  "endswith_sep s = (s \<noteq> [] \<and> last s = sep)"

text \<open>
  One turn of the loop of \<^verbatim>\<open>posixpath.join\<close>:
  \<^verbatim>\<open>
  if b.startswith(sep): path = b
  elif not path or path.endswith(sep): path += b
  else: path += sep + b
  \<close>
\<close>

definition join_step :: "string \<Rightarrow> string \<Rightarrow> string" where
  "join_step path b =
    (if startswith_sep b then b
     else if path = [] \<or> endswith_sep path then path @ b
     else path @ sep # b)"

text \<open>\<^verbatim>\<open>posixpath.join(a, *p)\<close>: the loop over the components \<^verbatim>\<open>p\<close>, starting from \<^verbatim>\<open>a\<close>.\<close>

fun path_join :: "string \<Rightarrow> string list \<Rightarrow> string" where
  "path_join path [] = path"
| "path_join path (b # p) = path_join (join_step path b) p"

text \<open>\<^verbatim>\<open>path.split(sep)\<close>: the pieces between separators, never an empty list.\<close>

fun split_sep :: "string \<Rightarrow> string list" where
  "split_sep [] = [[]]"
| "split_sep (c # cs) =
    (if c = sep then [] # split_sep cs
     else (case split_sep cs of
             [] \<Rightarrow> [[c]]
           | w # ws \<Rightarrow> (c # w) # ws))"

text \<open>\<^verbatim>\<open>sep.join(comps)\<close>.\<close>

fun sep_join :: "string list \<Rightarrow> string" where
  "sep_join [] = []"
| "sep_join [w] = w"
| "sep_join (w # v # ws) = w @ sep # sep_join (v # ws)"

text \<open>
  The number \<^verbatim>\<open>initial_slashes\<close> of \<^verbatim>\<open>posixpath.normpath\<close>: \<^verbatim>\<open>False\<close> (0) for a
  relative path, 2 for a path that starts with exactly two separators, \<^verbatim>\<open>True\<close> (1)
  for every other absolute path.
\<close>

definition initial_slashes :: "string \<Rightarrow> nat" where
  "initial_slashes path =
    (if startswith_sep path then
       (if take 2 path = [sep, sep] \<and> take 3 path \<noteq> [sep, sep, sep] then 2 else 1)
     else 0)"

text \<open>
  The body of the loop over the components:
  \<^verbatim>\<open>
  if comp in (empty, dot): continue
  if (comp != dotdot or (not initial_slashes and not new_comps) or
          (new_comps and new_comps[-1] == dotdot)):
      new_comps.append(comp)
  elif new_comps:
      new_comps.pop()
  \<close>
\<close>

definition normpath_step :: "nat \<Rightarrow> string list \<Rightarrow> string \<Rightarrow> string list" where
  "normpath_step slashes new_comps cmp =
    (if cmp = [] \<or> cmp = ''.'' then new_comps
     else if cmp \<noteq> ''..'' \<or> (slashes = 0 \<and> new_comps = [])
             \<or> (new_comps \<noteq> [] \<and> last new_comps = ''..'')
          then new_comps @ [cmp]
     else if new_comps \<noteq> [] then butlast new_comps
     else new_comps)"

fun normpath_loop :: "nat \<Rightarrow> string list \<Rightarrow> string list \<Rightarrow> string list" where
  "normpath_loop slashes new_comps [] = new_comps"
| "normpath_loop slashes new_comps (cmp # comps) =
    normpath_loop slashes (normpath_step slashes new_comps cmp) comps"

text \<open>
  \<^verbatim>\<open>posixpath.normpath(path)\<close>: the empty path is \<^verbatim>\<open>.\<close>; otherwise the components
  are filtered, joined again and prefixed with the initial separators, and an empty
  result is \<^verbatim>\<open>.\<close>.
\<close>

definition normpath :: "string \<Rightarrow> string" where
  "normpath path =
    (if path = [] then ''.''
     else
       let slashes = initial_slashes path;
           comps = normpath_loop slashes [] (split_sep path);
           path' = replicate slashes sep @ sep_join comps
       in if path' = [] then ''.'' else path')"

subsection \<open>Rewriting the path flags\<close>

text \<open>
  The test \<^verbatim>\<open>i[:2] == '-I' or i[:2] == '-L'\<close> and the value assigned when it holds,
  \<^verbatim>\<open>i[:2] + os.path.normpath(os.path.join(build_dir, i[2:]))\<close>.
\<close>

definition is_path_flag :: "string \<Rightarrow> bool" where
  "is_path_flag i = (take 2 i = ''-I'' \<or> take 2 i = ''-L'')"

definition absolute_flag :: "string \<Rightarrow> string \<Rightarrow> string" where
  "absolute_flag build_dir i = take 2 i @ normpath (path_join build_dir [drop 2 i])"

text \<open>
  The loop \<^verbatim>\<open>for idx, i in enumerate(parameter_list)\<close>: at each index the element is
  read from the list as it is then, and overwritten in place when it is a path flag.
  The list never changes its length, so the loop ends at the length it started with.
\<close>

function compute_loop :: "string \<Rightarrow> nat \<Rightarrow> string list \<Rightarrow> string list" where
  "compute_loop build_dir idx parameter_list =
    (if idx < length parameter_list then
       let i = parameter_list ! idx in
       compute_loop build_dir (Suc idx)
         (if is_path_flag i
          then parameter_list[idx := absolute_flag build_dir i]
          else parameter_list)
     else parameter_list)"
  by pat_completeness auto
termination
  by (relation "measure (\<lambda>(build_dir, idx, parameter_list). length parameter_list - idx)") auto

declare compute_loop.simps [simp del]

text \<open>
  A Python list is an object: the caller and the callee hold the same one. The store
  maps the identity of a list object to its present contents.
  \<^verbatim>\<open>compute_parameters_with_absolute_paths\<close> takes the reference \<^verbatim>\<open>parameter_list\<close>,
  runs the loop on the object and returns the reference it was given.
\<close>

type_synonym ref = nat
type_synonym store = "ref \<Rightarrow> string list"

definition compute_parameters_with_absolute_paths ::
    "store \<Rightarrow> ref \<Rightarrow> string \<Rightarrow> ref \<times> store" where
  "compute_parameters_with_absolute_paths st parameter_list build_dir =
    (parameter_list,
     st(parameter_list := compute_loop build_dir 0 (st parameter_list)))"

text \<open>
  The contents of the list that the call returns, and the element the loop leaves at a
  position that held \<open>i\<close>.
\<close>

definition returned_list :: "store \<Rightarrow> ref \<Rightarrow> string \<Rightarrow> string list" where
  "returned_list st parameter_list build_dir =
    (case compute_parameters_with_absolute_paths st parameter_list build_dir of
       (r, st') \<Rightarrow> st' r)"

definition rewritten :: "string \<Rightarrow> string \<Rightarrow> string" where
  "rewritten build_dir i = (if is_path_flag i then absolute_flag build_dir i else i)"

text \<open>
  A component that \<^verbatim>\<open>normpath\<close> keeps wherever it stands: not empty, not \<^verbatim>\<open>.\<close>, not
  \<^verbatim>\<open>..\<close>, and free of separators.
\<close>

definition plain_component :: "string \<Rightarrow> bool" where
  "plain_component w = (w \<noteq> [] \<and> w \<noteq> ''.'' \<and> w \<noteq> ''..'' \<and> sep \<notin> set w)"

text \<open>A store in which no list has been filled yet.\<close>

definition empty_store :: store where
  "empty_store = (\<lambda>_. [])"

subsection \<open>The sanity check\<close>

text \<open>
  The fields of \<^verbatim>\<open>self\<close> that \<^verbatim>\<open>sanity_check\<close> reads. \<^verbatim>\<open>name_string\<close> is a method of
  the base class \<^verbatim>\<open>Compiler\<close>, which is not part of this module: its value is a field
  here.
\<close>

record compiler =
  exelist :: "string list"
  is_cross :: bool
  name_string :: string

text \<open>
  What \<^verbatim>\<open>environment.coredata.get_external_args\<close> and \<^verbatim>\<open>get_external_link_args\<close>
  return for the machine and the language of this compiler.
\<close>

record environment =
  external_args :: "string list"
  external_link_args :: "string list"

text \<open>
  The operating system as \<^verbatim>\<open>sanity_check\<close> meets it. \<^verbatim>\<open>open_write\<close> is
  \<^verbatim>\<open>open(name, 'w')\<close> followed by the write: it gives the message of the exception it
  raises, if any. \<^verbatim>\<open>popen\<close> is \<^verbatim>\<open>subprocess.Popen(argv, cwd=cwd)\<close> followed by
  \<^verbatim>\<open>wait()\<close>: it raises, or gives the return code of the child and the text the child
  wrote to its standard output and standard error. \<^verbatim>\<open>call\<close> is \<^verbatim>\<open>subprocess.call\<close>
  on a program name, with the same two outcomes.
\<close>

record os =
  open_write :: "string \<Rightarrow> string \<Rightarrow> string option"
  popen :: "string list \<Rightarrow> string \<Rightarrow> string + (int \<times> string)"
  call :: "string \<Rightarrow> string + (int \<times> string)"

text \<open>
  What the method asked of the operating system, in the order it asked. \<^verbatim>\<open>Wait\<close> holds
  the return code that \<^verbatim>\<open>pc.wait()\<close> left in \<^verbatim>\<open>pc.returncode\<close>.
\<close>

datatype event =
    Open string string
  | Popen "string list" string
  | Wait int
  | Call string

text \<open>
  The outcome of a run: the exception raised or \<^verbatim>\<open>None\<close> returned, the requests made,
  and the text that reached the standard streams of the calling process. Neither
  \<^verbatim>\<open>Popen\<close> nor \<^verbatim>\<open>subprocess.call\<close> is given a \<^verbatim>\<open>stdout\<close> or \<^verbatim>\<open>stderr\<close> argument, so
  both children inherit those streams and what they write lands there.
\<close>

record outcome =
  result :: "error + unit"
  trace :: "event list"
  console :: string

definition sanity_check :: "compiler \<Rightarrow> os \<Rightarrow> string \<Rightarrow> environment \<Rightarrow> outcome" where
  "sanity_check self sys work_dir env =
    (let src = ''c3ctest.c3'';
         source_name = path_join work_dir [src];
         output_name = path_join work_dir [''c3test'', ''c3test''];
         extra_flags = [] @ external_args env
           @ (if is_cross self then get_compile_only_args else external_link_args env);
         text = ''fn int main(){return 0;}'' @ [CHR 0x0A];
         argv = exelist self @ extra_flags @ [''compile'', src, ''-o'', output_name]
     in
       case open_write sys source_name text of
         Some e \<Rightarrow>
           \<lparr>result = Inl (OSError e), trace = [Open source_name text], console = []\<rparr>
       | None \<Rightarrow>
          (case popen sys argv work_dir of
             Inl e \<Rightarrow>
               \<lparr>result = Inl (OSError e),
                trace = [Open source_name text, Popen argv work_dir],
                console = []\<rparr>
           | Inr (returncode, out) \<Rightarrow>
               if returncode \<noteq> 0 then
                 \<lparr>result = Inl (EnvironmentException
                    (''C3 compiler '' @ name_string self @ '' cannot compile programs.'')),
                  trace = [Open source_name text, Popen argv work_dir, Wait returncode],
                  console = out\<rparr>
               else if is_cross self then
                 \<lparr>result = Inr (),
                  trace = [Open source_name text, Popen argv work_dir, Wait returncode],
                  console = out\<rparr>
               else
                 (case call sys output_name of
                    Inl e \<Rightarrow>
                      \<lparr>result = Inl (OSError e),
                       trace = [Open source_name text, Popen argv work_dir, Wait returncode,
                                Call output_name],
                       console = out\<rparr>
                  | Inr (status, out') \<Rightarrow>
                      \<lparr>result =
                         (if status \<noteq> 0 then
                            Inl (EnvironmentException
                              (''Executables created by C3 compiler '' @ name_string self
                                @ '' are not runnable.''))
                          else Inr ()),
                       trace = [Open source_name text, Popen argv work_dir, Wait returncode,
                                Call output_name],
                       console = out @ out'\<rparr>)))"

text \<open>An operating system on which the file is written and both programs are found.\<close>

definition plain_os :: "int \<Rightarrow> string \<Rightarrow> int \<Rightarrow> string \<Rightarrow> os" where
  "plain_os returncode out status out' =
    \<lparr>open_write = (\<lambda>name text. None),
     popen = (\<lambda>argv cwd. Inr (returncode, out)),
     call = (\<lambda>name. Inr (status, out'))\<rparr>"

section \<open>Properties\<close>

subsection \<open>The flag table\<close>

text \<open>
  Claim C1. On every level of the closed set \<open>plain, 0, g, 1, 2, 3, s, 4, 5, z\<close>,
  \<^verbatim>\<open>get_optimization_args\<close> returns a flag list, \<open>[-O2]\<close> on \<open>2\<close> and the empty list on
  \<open>plain\<close>; on every other level it raises (the \<^verbatim>\<open>KeyError\<close> of the dictionary
  subscript, carrying the level) and returns nothing.
\<close>

theorem get_optimization_args_closed_set:
  "(l \<in> optimization_levels \<longrightarrow> (\<exists>args. get_optimization_args l = Inr args))
   \<and> (l \<notin> optimization_levels \<longrightarrow> get_optimization_args l = Inl (KeyError l))
   \<and> get_optimization_args ''2'' = Inr [''-O2'']
   \<and> get_optimization_args ''plain'' = Inr []"
  by (simp add: get_optimization_args_def c3_optimization_args_def optimization_levels_def)

theorem get_optimization_args_closed_set_witness:
  "''3'' \<in> optimization_levels \<and> (\<exists>args. get_optimization_args ''3'' = Inr args)
   \<and> ''9'' \<notin> optimization_levels \<and> get_optimization_args ''9'' = Inl (KeyError ''9'')"
  using get_optimization_args_closed_set [of "''3''"]
    get_optimization_args_closed_set [of "''9''"]
  by (simp add: optimization_levels_def)

subsection \<open>Dependency files\<close>

text \<open>
  Claim C8. For every object file \<^verbatim>\<open>depfile_for_object\<close> returns \<^verbatim>\<open>None\<close>, while
  \<^verbatim>\<open>get_depfile_suffix\<close> returns the non-empty suffix \<open>d\<close>.
\<close>

theorem depfile_suffix_but_no_depfile:
  "depfile_for_object objfile = None
   \<and> get_depfile_suffix = ''d'' \<and> get_depfile_suffix \<noteq> []"
  by (simp add: depfile_for_object_def get_depfile_suffix_def)

subsection \<open>The rewriting loop\<close>

lemma compute_loop_from:
  "idx \<le> length xs \<Longrightarrow>
   compute_loop b idx xs = take idx xs @ map (rewritten b) (drop idx xs)"
proof (induction b idx xs rule: compute_loop.induct)
  case (1 b idx xs)
  show ?case
  proof (cases "idx < length xs")
    case True
    then have d: "drop idx xs = xs ! idx # drop (Suc idx) xs"
      by (simp add: Cons_nth_drop_Suc)
    from True have t: "take (Suc idx) xs = take idx xs @ [xs ! idx]"
      by (simp add: take_Suc_conv_app_nth)
    show ?thesis
    proof (cases "is_path_flag (xs ! idx)")
      case pf: True
      from True pf "1.IH"[OF True refl]
      have "compute_loop b (Suc idx) (xs[idx := absolute_flag b (xs ! idx)])
          = take (Suc idx) (xs[idx := absolute_flag b (xs ! idx)])
            @ map (rewritten b) (drop (Suc idx) (xs[idx := absolute_flag b (xs ! idx)]))"
        by simp
      with True pf show ?thesis
        apply (subst compute_loop.simps)
        apply (simp add: d take_Suc_conv_app_nth rewritten_def)
        done
    next
      case npf: False
      from True npf "1.IH"[OF True refl]
      have "compute_loop b (Suc idx) xs
          = take (Suc idx) xs @ map (rewritten b) (drop (Suc idx) xs)"
        by simp
      with True npf show ?thesis
        apply (subst compute_loop.simps)
        apply (simp add: d t rewritten_def)
        done
    qed
  next
    case False
    with 1(2) have "idx = length xs" by simp
    then show ?thesis by (subst compute_loop.simps) simp
  qed
qed

lemma compute_loop_map: "compute_loop b 0 xs = map (rewritten b) xs"
  using compute_loop_from [of 0 xs b] by simp

lemma compute_parameters_eq:
  "compute_parameters_with_absolute_paths st r b = (r, st(r := map (rewritten b) (st r)))"
  by (simp add: compute_parameters_with_absolute_paths_def compute_loop_map)

lemma returned_list_map: "returned_list st r b = map (rewritten b) (st r)"
  by (simp add: returned_list_def compute_parameters_eq)

lemma rewritten_example:
  "rewritten ''/build'' ''-Ilib'' = ''-I/build/lib''"
  by (simp add: rewritten_def is_path_flag_def absolute_flag_def join_step_def
      startswith_sep_def endswith_sep_def normpath_def initial_slashes_def normpath_step_def)

lemma rewritten_relative:
  "rewritten ''build'' ''-Ilib'' = ''-Ibuild/lib''
   \<and> rewritten ''build'' ''-Ibuild/lib'' = ''-Ibuild/build/lib''"
  by (simp add: rewritten_def is_path_flag_def absolute_flag_def join_step_def
      startswith_sep_def endswith_sep_def normpath_def initial_slashes_def normpath_step_def)

lemma rewritten_other: "\<not> is_path_flag i \<Longrightarrow> rewritten b i = i"
  by (simp add: rewritten_def)

text \<open>
  Claim C4. The list that \<^verbatim>\<open>compute_parameters_with_absolute_paths\<close> returns has the
  length of the list it was given; the flag at each position is the rewriting of the flag
  that stood at that position, so the order is kept; a flag whose first two characters are
  neither \<open>-I\<close> nor \<open>-L\<close> stays as it is; and on \<open>[-Ilib, -Wall]\<close> with the build
  directory \<open>/build\<close> the result is \<open>[-I/build/lib, -Wall]\<close>.
\<close>

theorem absolute_paths_keep_positions:
  "length (returned_list st r b) = length (st r)
   \<and> (\<forall>k<length (st r).
         returned_list st r b ! k = rewritten b (st r ! k)
         \<and> (\<not> is_path_flag (st r ! k) \<longrightarrow> returned_list st r b ! k = st r ! k))
   \<and> returned_list (st(r := [''-Ilib'', ''-Wall''])) r ''/build'' = [''-I/build/lib'', ''-Wall'']"
proof -
  have "\<not> is_path_flag ''-Wall''"
    by (simp add: is_path_flag_def)
  then have "map (rewritten ''/build'') [''-Ilib'', ''-Wall''] = [''-I/build/lib'', ''-Wall'']"
    by (simp add: rewritten_example rewritten_other)
  then show ?thesis
    by (simp add: returned_list_map rewritten_other)
qed

theorem absolute_paths_keep_positions_witness:
  "1 < length ((empty_store(0 := [''-Ilib'', ''-Wall''])) 0)
   \<and> \<not> is_path_flag ((empty_store(0 := [''-Ilib'', ''-Wall''])) 0 ! 1)
   \<and> returned_list (empty_store(0 := [''-Ilib'', ''-Wall''])) 0 ''/build'' ! 1 = ''-Wall''"
  using absolute_paths_keep_positions [of "empty_store(0 := [''-Ilib'', ''-Wall''])" 0 "''/build''"]
  by (simp add: is_path_flag_def)

text \<open>
  Claim C2 says that the input list is not mutated and that a new list is returned. The
  method assigns into \<^verbatim>\<open>parameter_list\<close> and returns that very object: with the caller's
  list \<open>[-Ilib]\<close> at reference 0 and the build directory \<open>/build\<close>, the reference returned
  is 0 and the caller's list has become \<open>[-I/build/lib]\<close>.
\<close>

theorem input_list_mutated_counterexample:
  "fst (compute_parameters_with_absolute_paths (empty_store(0 := [''-Ilib''])) 0 ''/build'') = 0
   \<and> snd (compute_parameters_with_absolute_paths (empty_store(0 := [''-Ilib''])) 0 ''/build'') 0
       = [''-I/build/lib'']
   \<and> snd (compute_parameters_with_absolute_paths (empty_store(0 := [''-Ilib''])) 0 ''/build'') 0
       \<noteq> (empty_store(0 := [''-Ilib''])) 0"
  by (simp add: compute_parameters_eq rewritten_example)

text \<open>
  Claim C2, as the code has it. The call returns the reference it was given; the list
  behind it keeps its length and holds, position by position, the rewritten flags; every
  other list of the store is untouched; and the caller's list reads the same after the
  call exactly when each of its path flags is already equal to its own rewriting.
\<close>

theorem input_list_rewritten_in_place:
  assumes "compute_parameters_with_absolute_paths st r b = (r', st')"
  shows "r' = r
    \<and> length (st' r) = length (st r)
    \<and> st' r = map (rewritten b) (st r)
    \<and> (\<forall>q. q \<noteq> r \<longrightarrow> st' q = st q)
    \<and> (st' r = st r \<longleftrightarrow> (\<forall>i\<in>set (st r). is_path_flag i \<longrightarrow> absolute_flag b i = i))"
proof -
  from assms have r: "r' = r" and st: "st' = st(r := map (rewritten b) (st r))"
    by (auto simp: compute_parameters_eq)
  have "map (rewritten b) (st r) = st r \<longleftrightarrow> (\<forall>i\<in>set (st r). rewritten b i = i)"
    by (simp add: map_idI map_eq_conv [where g = "\<lambda>x. x", simplified])
  then show ?thesis
    using r st by (auto simp: rewritten_def)
qed

theorem input_list_rewritten_in_place_witness:
  "compute_parameters_with_absolute_paths (empty_store(0 := [''-Ilib'', ''-Wall''])) 0 ''/build''
     = (0, empty_store(0 := [''-I/build/lib'', ''-Wall'']))
   \<and> 1 \<noteq> (0::nat)
   \<and> (empty_store(0 := [''-I/build/lib'', ''-Wall''])) 1 = (empty_store(0 := [''-Ilib'', ''-Wall''])) 1
   \<and> ''-Ilib'' \<in> set ((empty_store(0 := [''-Ilib'', ''-Wall''])) 0)
   \<and> is_path_flag ''-Ilib''
   \<and> absolute_flag ''/build'' ''-Ilib'' \<noteq> ''-Ilib''"
proof -
  have c: "compute_parameters_with_absolute_paths (empty_store(0 := [''-Ilib'', ''-Wall''])) 0 ''/build''
     = (0, empty_store(0 := [''-I/build/lib'', ''-Wall'']))"
    using rewritten_example by (simp add: compute_parameters_eq rewritten_other is_path_flag_def)
  show ?thesis
    using input_list_rewritten_in_place [OF c] c by (auto simp: is_path_flag_def)
qed


subsection \<open>Joining and normalising\<close>

lemma normpath_loop_append:
  "normpath_loop s acc (xs @ ys) = normpath_loop s (normpath_loop s acc xs) ys"
  by (induction xs arbitrary: acc) simp_all

lemma split_sep_not_Nil: "split_sep p \<noteq> []"
  by (induction p) (auto split: list.splits)

lemma split_sep_append: "split_sep (xs @ sep # ys) = split_sep xs @ split_sep ys"
proof (induction xs)
  case Nil
  show ?case by simp
next
  case (Cons c cs)
  then show ?case
    using split_sep_not_Nil [of cs] by (cases "split_sep cs") auto
qed

lemma normpath_not_Nil: "normpath p \<noteq> []"
  by (simp add: normpath_def Let_def)

lemma initial_slashes_snoc:
  assumes "b \<noteq> []" and "last b \<noteq> sep"
  shows "initial_slashes (b @ [sep]) = initial_slashes b"
proof (cases b)
  case Nil
  with assms show ?thesis by simp
next
  case b1: (Cons c cs)
  show ?thesis
  proof (cases cs)
    case Nil
    with b1 assms show ?thesis
      by (simp add: initial_slashes_def startswith_sep_def)
  next
    case b2: (Cons d ds)
    show ?thesis
    proof (cases ds)
      case Nil
      with b1 b2 assms show ?thesis
        by (simp add: initial_slashes_def startswith_sep_def)
    next
      case (Cons e es)
      with b1 b2 show ?thesis
        by (simp add: initial_slashes_def startswith_sep_def)
    qed
  qed
qed

lemma normpath_snoc_sep:
  assumes "b \<noteq> []" and "last b \<noteq> sep"
  shows "normpath (b @ [sep]) = normpath b"
proof -
  have "split_sep (b @ [sep]) = split_sep b @ [[]]"
    using split_sep_append [of b "[]"] by simp
  then have "normpath_loop s [] (split_sep (b @ [sep])) = normpath_loop s [] (split_sep b)" for s
    by (simp add: normpath_loop_append normpath_step_def)
  with assms show ?thesis
    by (simp add: normpath_def initial_slashes_snoc)
qed

lemma normpath_join_empty: "normpath (path_join b [[]]) = normpath b"
proof (cases "b = [] \<or> endswith_sep b")
  case True
  then show ?thesis
    by (auto simp: join_step_def startswith_sep_def)
next
  case False
  then have "b \<noteq> []" and "last b \<noteq> sep"
    by (auto simp: endswith_sep_def)
  then have "normpath (b @ [sep]) = normpath b"
    by (rule normpath_snoc_sep)
  with False show ?thesis
    by (simp add: join_step_def startswith_sep_def)
qed

text \<open>
  Claim C10. A flag that is exactly \<open>-I\<close> or \<open>-L\<close> is a path flag: at its position the
  returned list holds the prefix followed by the normalised build directory, which is
  never the bare prefix again.
\<close>

theorem bare_prefix_is_rewritten:
  assumes "k < length (st r)" and "st r ! k = ''-I'' \<or> st r ! k = ''-L''"
  shows "is_path_flag (st r ! k)
    \<and> returned_list st r b ! k = st r ! k @ normpath b
    \<and> returned_list st r b ! k \<noteq> st r ! k"
proof -
  from assms(2) have pf: "is_path_flag (st r ! k)"
    by (auto simp: is_path_flag_def)
  from assms(2) have "absolute_flag b (st r ! k) = st r ! k @ normpath (path_join b [[]])"
    by (auto simp: absolute_flag_def)
  then have "rewritten b (st r ! k) = st r ! k @ normpath b"
    using pf normpath_join_empty [of b] by (simp add: rewritten_def)
  with assms(1) pf show ?thesis
    by (simp add: returned_list_map normpath_not_Nil)
qed

theorem bare_prefix_is_rewritten_witness:
  "0 < length ((empty_store(0 := [''-I'', ''-L''])) 0)
   \<and> (empty_store(0 := [''-I'', ''-L''])) 0 ! 0 = ''-I''
   \<and> returned_list (empty_store(0 := [''-I'', ''-L''])) 0 ''/build/'' ! 0 = ''-I/build''"
proof -
  have n: "normpath ''/build/'' = ''/build''"
    by (simp add: normpath_def initial_slashes_def startswith_sep_def normpath_step_def)
  show ?thesis
    using bare_prefix_is_rewritten [of 0 "empty_store(0 := [''-I'', ''-L''])" 0 "''/build/''"] n
    by simp
qed

text \<open>
  Claim C9 says that the result \<open>[--libdir, p]\<close> of \<^verbatim>\<open>get_include_args\<close> is never
  rewritten. A path that itself begins with \<open>-I\<close> or \<open>-L\<close> is: for \<open>p = -Ilib\<close> and the
  build directory \<open>/build\<close> the second element becomes \<open>-I/build/lib\<close>.
\<close>

theorem include_args_rewritten_counterexample:
  "returned_list (empty_store(0 := get_include_args ''-Ilib'' False)) 0 ''/build''
     = [''--libdir'', ''-I/build/lib'']
   \<and> returned_list (empty_store(0 := get_include_args ''-Ilib'' False)) 0 ''/build''
     \<noteq> get_include_args ''-Ilib'' False"
proof -
  have "\<not> is_path_flag ''--libdir''"
    by (simp add: is_path_flag_def)
  then show ?thesis
    by (simp add: returned_list_map get_include_args_def rewritten_example rewritten_other)
qed

text \<open>
  Claim C9, as the code has it. \<^verbatim>\<open>get_include_args\<close> returns \<open>[--libdir, p]\<close> whatever
  \<open>is_system\<close> is; the rewriting never touches \<open>--libdir\<close>, and it leaves \<open>p\<close> alone
  whenever the first two characters of \<open>p\<close> are neither \<open>-I\<close> nor \<open>-L\<close>.
\<close>

theorem include_args_not_rewritten:
  "get_include_args p is_system = [''--libdir'', p]
   \<and> (st r = get_include_args p is_system \<longrightarrow>
        returned_list st r b = [''--libdir'', rewritten b p]
        \<and> (\<not> is_path_flag p \<longrightarrow> returned_list st r b = get_include_args p is_system))"
proof -
  have "\<not> is_path_flag ''--libdir''"
    by (simp add: is_path_flag_def)
  then show ?thesis
    by (simp add: returned_list_map get_include_args_def rewritten_other)
qed

theorem include_args_not_rewritten_witness:
  "(empty_store(0 := get_include_args ''lib'' True)) 0 = get_include_args ''lib'' True
   \<and> \<not> is_path_flag ''lib''
   \<and> returned_list (empty_store(0 := get_include_args ''lib'' True)) 0 ''/build''
       = [''--libdir'', ''lib'']"
  using include_args_not_rewritten
    [of "''lib''" True "empty_store(0 := get_include_args ''lib'' True)" 0 "''/build''"]
  by (simp add: is_path_flag_def get_include_args_def rewritten_def)


subsection \<open>The sanity check\<close>

text \<open>
  Claim C5. Whenever the compile step of \<^verbatim>\<open>sanity_check\<close> ends with a return code other
  than zero, the method raises the \<^verbatim>\<open>EnvironmentException\<close> that says the C3 compiler
  named by \<^verbatim>\<open>name_string\<close> cannot compile programs, and it never calls the program it
  asked the compiler to produce.
\<close>

theorem failed_compile_is_never_run:
  assumes "Wait returncode \<in> set (trace (sanity_check self sys work_dir env))"
    and "returncode \<noteq> 0"
  shows "result (sanity_check self sys work_dir env)
      = Inl (EnvironmentException
          (''C3 compiler '' @ name_string self @ '' cannot compile programs.''))
    \<and> (\<forall>name. Call name \<notin> set (trace (sanity_check self sys work_dir env)))"
  using assms
  by (auto simp: sanity_check_def Let_def split: option.splits sum.splits prod.splits if_splits)

theorem failed_compile_is_never_run_witness:
  "Wait 1 \<in> set (trace (sanity_check \<lparr>exelist = [''c3c''], is_cross = False, name_string = ''c3c''\<rparr>
       (plain_os 1 ''boom'' 0 []) ''/tmp/w'' \<lparr>external_args = [], external_link_args = []\<rparr>))
   \<and> (1::int) \<noteq> 0
   \<and> result (sanity_check \<lparr>exelist = [''c3c''], is_cross = False, name_string = ''c3c''\<rparr>
       (plain_os 1 ''boom'' 0 []) ''/tmp/w'' \<lparr>external_args = [], external_link_args = []\<rparr>)
     = Inl (EnvironmentException ''C3 compiler c3c cannot compile programs.'')"
proof -
  have w: "Wait 1 \<in> set (trace (sanity_check \<lparr>exelist = [''c3c''], is_cross = False, name_string = ''c3c''\<rparr>
       (plain_os 1 ''boom'' 0 []) ''/tmp/w'' \<lparr>external_args = [], external_link_args = []\<rparr>))"
    by (simp add: sanity_check_def plain_os_def Let_def)
  have n: "(1::int) \<noteq> 0" by simp
  show ?thesis
    using failed_compile_is_never_run [OF w n] w by simp
qed

text \<open>
  Claim C6. Whenever \<^verbatim>\<open>is_cross\<close> holds, \<^verbatim>\<open>sanity_check\<close> never calls the produced
  program, and every command it starts is the executable, the external arguments, the
  compile-only flags and the fixed tail, run in the work directory: the external link
  arguments are not in it, whatever the compile step then does. When moreover the compile
  step ends with return code zero, the method returns normally, having started that
  command.
\<close>

theorem cross_compile_command_and_no_run:
  assumes "is_cross self"
  shows "(\<forall>name. Call name \<notin> set (trace (sanity_check self sys work_dir env)))
    \<and> (\<forall>argv cwd. Popen argv cwd \<in> set (trace (sanity_check self sys work_dir env)) \<longrightarrow>
          argv = exelist self @ external_args env @ get_compile_only_args
              @ [''compile'', ''c3ctest.c3'', ''-o'', path_join work_dir [''c3test'', ''c3test'']]
          \<and> cwd = work_dir)
    \<and> (Wait 0 \<in> set (trace (sanity_check self sys work_dir env)) \<longrightarrow>
          result (sanity_check self sys work_dir env) = Inr ()
          \<and> Popen (exelist self @ external_args env @ get_compile_only_args
              @ [''compile'', ''c3ctest.c3'', ''-o'', path_join work_dir [''c3test'', ''c3test'']])
             work_dir \<in> set (trace (sanity_check self sys work_dir env)))"
  using assms
  by (auto simp: sanity_check_def Let_def split: option.splits sum.splits prod.splits if_splits)

theorem cross_compile_command_and_no_run_witness:
  "is_cross \<lparr>exelist = [''c3c''], is_cross = True, name_string = ''c3c''\<rparr>
   \<and> Wait 0 \<in> set (trace (sanity_check \<lparr>exelist = [''c3c''], is_cross = True, name_string = ''c3c''\<rparr>
       (plain_os 0 [] 1 []) ''/w'' \<lparr>external_args = [''-g''], external_link_args = [''-lm'']\<rparr>))
   \<and> result (sanity_check \<lparr>exelist = [''c3c''], is_cross = True, name_string = ''c3c''\<rparr>
       (plain_os 0 [] 1 []) ''/w'' \<lparr>external_args = [''-g''], external_link_args = [''-lm'']\<rparr>) = Inr ()
   \<and> Popen [''c3c'', ''-g'', ''compile-only'', ''compile'', ''c3ctest.c3'', ''-o'', ''/w/c3test/c3test''] ''/w''
       \<in> set (trace (sanity_check \<lparr>exelist = [''c3c''], is_cross = True, name_string = ''c3c''\<rparr>
       (plain_os 0 [] 1 []) ''/w'' \<lparr>external_args = [''-g''], external_link_args = [''-lm'']\<rparr>))
   \<and> Popen [''c3c'', ''-g'', ''compile-only'', ''compile'', ''c3ctest.c3'', ''-o'', ''/w/c3test/c3test''] ''/w''
       \<in> set (trace (sanity_check \<lparr>exelist = [''c3c''], is_cross = True, name_string = ''c3c''\<rparr>
       (plain_os 1 [] 1 []) ''/w'' \<lparr>external_args = [''-g''], external_link_args = [''-lm'']\<rparr>))
   \<and> Wait 0 \<notin> set (trace (sanity_check \<lparr>exelist = [''c3c''], is_cross = True, name_string = ''c3c''\<rparr>
       (plain_os 1 [] 1 []) ''/w'' \<lparr>external_args = [''-g''], external_link_args = [''-lm'']\<rparr>))"
proof -
  have c: "is_cross \<lparr>exelist = [''c3c''], is_cross = True, name_string = ''c3c''\<rparr>"
    by simp
  have j: "path_join ''/w'' [''c3test'', ''c3test''] = ''/w/c3test/c3test''"
    by (simp add: join_step_def startswith_sep_def endswith_sep_def)
  have w: "Wait 0 \<in> set (trace (sanity_check \<lparr>exelist = [''c3c''], is_cross = True, name_string = ''c3c''\<rparr>
       (plain_os 0 [] 1 []) ''/w'' \<lparr>external_args = [''-g''], external_link_args = [''-lm'']\<rparr>))"
    by (simp add: sanity_check_def plain_os_def Let_def)
  have f: "trace (sanity_check \<lparr>exelist = [''c3c''], is_cross = True, name_string = ''c3c''\<rparr>
       (plain_os 1 [] 1 []) ''/w'' \<lparr>external_args = [''-g''], external_link_args = [''-lm'']\<rparr>)
     = [Open ''/w/c3ctest.c3'' (''fn int main(){return 0;}'' @ [CHR 0x0A]),
        Popen [''c3c'', ''-g'', ''compile-only'', ''compile'', ''c3ctest.c3'', ''-o'', ''/w/c3test/c3test''] ''/w'',
        Wait 1]"
    by (simp add: sanity_check_def plain_os_def Let_def join_step_def startswith_sep_def
        endswith_sep_def get_compile_only_args_def)
  show ?thesis
    using cross_compile_command_and_no_run [OF c, of "plain_os 0 [] 1 []" "''/w''"
        "\<lparr>external_args = [''-g''], external_link_args = [''-lm'']\<rparr>"] c w j f
    by (simp add: get_compile_only_args_def)
qed




subsection \<open>Normalising an absolute path\<close>

lemma split_sep_no_sep: "w \<in> set (split_sep p) \<Longrightarrow> sep \<notin> set w"
proof (induction p arbitrary: w)
  case Nil
  then show ?case by simp
next
  case (Cons c cs)
  then show ?case
    by (cases "split_sep cs") (auto split: if_splits)
qed

lemma split_sep_single: "sep \<notin> set w \<Longrightarrow> split_sep w = [w]"
  by (induction w) auto

lemma split_sep_replicate: "split_sep (replicate k sep @ p) = replicate k [] @ split_sep p"
  by (induction k) simp_all

lemma split_sep_join:
  "cs \<noteq> [] \<Longrightarrow> \<forall>w\<in>set cs. sep \<notin> set w \<Longrightarrow> split_sep (sep_join cs) = cs"
proof (induction cs rule: sep_join.induct)
  case 1
  then show ?case by simp
next
  case (2 w)
  then show ?case by (simp add: split_sep_single)
next
  case (3 w v ws)
  then show ?case
    by (simp add: split_sep_append split_sep_single)
qed

lemma normpath_step_empty: "normpath_step s acc [] = acc"
  by (simp add: normpath_step_def)

lemma normpath_loop_skip: "normpath_loop s acc (replicate k [] @ cs) = normpath_loop s acc cs"
  by (induction k) (simp_all add: normpath_step_empty)

lemma normpath_step_plain: "plain_component c \<Longrightarrow> normpath_step s acc c = acc @ [c]"
  by (simp add: normpath_step_def plain_component_def)

lemma normpath_loop_plain:
  "\<forall>c\<in>set cs. plain_component c \<Longrightarrow> normpath_loop s acc cs = acc @ cs"
  by (induction cs arbitrary: acc) (simp_all add: normpath_step_plain)

lemma normpath_step_absolute:
  assumes "0 < s" and "\<forall>w\<in>set acc. plain_component w" and "sep \<notin> set c"
  shows "\<forall>w\<in>set (normpath_step s acc c). plain_component w"
proof -
  have l: "acc \<noteq> [] \<Longrightarrow> last acc \<noteq> ''..''"
    using assms(2) last_in_set [of acc] by (auto simp: plain_component_def)
  have b: "\<forall>w\<in>set (butlast acc). plain_component w"
    using assms(2) by (auto dest: in_set_butlastD)
  show ?thesis
    using assms l b by (auto simp: normpath_step_def plain_component_def)
qed

lemma normpath_loop_absolute:
  "0 < s \<Longrightarrow> \<forall>w\<in>set acc. plain_component w \<Longrightarrow> \<forall>c\<in>set cs. sep \<notin> set c \<Longrightarrow>
   \<forall>w\<in>set (normpath_loop s acc cs). plain_component w"
proof (induction cs arbitrary: acc)
  case Nil
  then show ?case by simp
next
  case (Cons c cs)
  from Cons.prems have "\<forall>w\<in>set (normpath_step s acc c). plain_component w"
    by (intro normpath_step_absolute) simp_all
  with Cons show ?case by simp
qed

lemma sep_join_plain_start:
  "\<forall>w\<in>set cs. plain_component w \<Longrightarrow> \<not> startswith_sep (sep_join cs)"
proof (induction cs rule: sep_join.induct)
  case 1
  show ?case by (simp add: startswith_sep_def)
next
  case (2 w)
  then show ?case by (cases w) (auto simp: startswith_sep_def plain_component_def)
next
  case (3 w v ws)
  then show ?case by (cases w) (auto simp: startswith_sep_def plain_component_def)
qed

lemma initial_slashes_prefixed:
  "k = 1 \<or> k = 2 \<Longrightarrow> \<not> startswith_sep t \<Longrightarrow> initial_slashes (replicate k sep @ t) = k"
  by (cases t) (auto simp: initial_slashes_def startswith_sep_def numeral_2_eq_2)

lemma initial_slashes_absolute:
  "startswith_sep p \<Longrightarrow> initial_slashes p = 1 \<or> initial_slashes p = 2"
  by (simp add: initial_slashes_def)

lemma normpath_prefixed:
  assumes "k = 1 \<or> k = 2" and "\<forall>w\<in>set cs. plain_component w"
  shows "normpath (replicate k sep @ sep_join cs) = replicate k sep @ sep_join cs"
proof -
  let ?n = "replicate k sep @ sep_join cs"
  from assms(1) have ne: "?n \<noteq> []" by auto
  have sl: "initial_slashes ?n = k"
    using assms by (intro initial_slashes_prefixed sep_join_plain_start)
  have ns: "\<forall>w\<in>set cs. sep \<notin> set w"
    using assms(2) by (simp add: plain_component_def)
  have "normpath_loop k [] (split_sep (sep_join cs)) = cs"
  proof (cases "cs = []")
    case True
    then show ?thesis by (simp add: normpath_step_empty)
  next
    case False
    from False ns have "split_sep (sep_join cs) = cs" by (rule split_sep_join)
    with assms(2) show ?thesis by (simp add: normpath_loop_plain)
  qed
  then have "normpath_loop k [] (split_sep ?n) = cs"
    by (simp add: split_sep_replicate normpath_loop_skip)
  with ne sl show ?thesis
    by (simp add: normpath_def Let_def)
qed

lemma normpath_absolute_form:
  assumes "startswith_sep p"
  shows "\<exists>k cs. (k = 1 \<or> k = 2) \<and> (\<forall>w\<in>set cs. plain_component w)
           \<and> normpath p = replicate k sep @ sep_join cs"
proof -
  let ?k = "initial_slashes p"
  let ?cs = "normpath_loop ?k [] (split_sep p)"
  from assms have k: "?k = 1 \<or> ?k = 2" by (rule initial_slashes_absolute)
  then have "0 < ?k" by auto
  then have pl: "\<forall>w\<in>set ?cs. plain_component w"
    by (intro normpath_loop_absolute) (auto dest: split_sep_no_sep)
  from assms have "p \<noteq> []" by (auto simp: startswith_sep_def)
  with k have "normpath p = replicate ?k sep @ sep_join ?cs"
    by (auto simp: normpath_def Let_def)
  with k pl show ?thesis by blast
qed

lemma normpath_absolute_idem:
  assumes "startswith_sep p"
  shows "normpath (normpath p) = normpath p"
proof -
  from assms obtain k cs where "k = 1 \<or> k = 2" and "\<forall>w\<in>set cs. plain_component w"
    and n: "normpath p = replicate k sep @ sep_join cs"
    using normpath_absolute_form by blast
  then have "normpath (replicate k sep @ sep_join cs) = replicate k sep @ sep_join cs"
    by (intro normpath_prefixed)
  with n show ?thesis by simp
qed

lemma normpath_absolute_start:
  "startswith_sep p \<Longrightarrow> startswith_sep (normpath p)"
  using normpath_absolute_form [of p] by (auto simp: startswith_sep_def numeral_2_eq_2)

lemma join_step_absolute: "startswith_sep b \<Longrightarrow> startswith_sep (join_step b t)"
  by (cases b) (auto simp: join_step_def startswith_sep_def)

lemma join_step_onto_absolute: "startswith_sep t \<Longrightarrow> join_step b t = t"
  by (simp add: join_step_def)

lemma rewritten_idem:
  assumes "startswith_sep b"
  shows "rewritten b (rewritten b i) = rewritten b i"
proof (cases "is_path_flag i")
  case False
  then show ?thesis by (simp add: rewritten_def)
next
  case True
  let ?n = "normpath (join_step b (drop 2 i))"
  from True have t: "take 2 i = ''-I'' \<or> take 2 i = ''-L''"
    by (simp add: is_path_flag_def)
  have abs: "startswith_sep (join_step b (drop 2 i))"
    using assms by (rule join_step_absolute)
  then have st: "startswith_sep ?n" by (rule normpath_absolute_start)
  from abs have idem: "normpath ?n = ?n" by (rule normpath_absolute_idem)
  obtain p where p: "take 2 i = p" by simp
  with t have pp: "p = ''-I'' \<or> p = ''-L''" by simp
  from True p have r: "rewritten b i = p @ ?n"
    by (simp add: rewritten_def absolute_flag_def)
  from pp have t2: "take 2 (p @ ?n) = p" and d2: "drop 2 (p @ ?n) = ?n"
    by auto
  from pp t2 have pf: "is_path_flag (p @ ?n)"
    by (simp add: is_path_flag_def)
  have "rewritten b (p @ ?n) = p @ normpath (join_step b ?n)"
    using pf t2 d2 by (simp add: rewritten_def absolute_flag_def)
  also have "\<dots> = p @ ?n"
    using st idem by (simp add: join_step_onto_absolute)
  finally show ?thesis using r by simp
qed

text \<open>
  Claim C3 says that rewriting twice with the same build directory gives what rewriting
  once gives, for every build directory. With the relative build directory \<open>build\<close> the
  flag \<open>-Ilib\<close> becomes \<open>-Ibuild/lib\<close>, which is relative again, and the second call
  turns it into \<open>-Ibuild/build/lib\<close>.
\<close>

theorem relative_build_dir_counterexample:
  "returned_list (empty_store(0 := [''-Ilib''])) 0 ''build'' = [''-Ibuild/lib'']
   \<and> returned_list
        (snd (compute_parameters_with_absolute_paths (empty_store(0 := [''-Ilib''])) 0 ''build''))
        (fst (compute_parameters_with_absolute_paths (empty_store(0 := [''-Ilib''])) 0 ''build''))
        ''build''
      = [''-Ibuild/build/lib'']"
  by (simp add: returned_list_map compute_parameters_eq rewritten_relative)

text \<open>
  Claim C3, as the code has it. For every flag list and every absolute build directory
  (one that starts with the separator), calling \<^verbatim>\<open>compute_parameters_with_absolute_paths\<close>
  again on the list it returned, with the same build directory, changes nothing: a path
  flag already holds a normalised absolute path, which \<^verbatim>\<open>join\<close> returns as it is and
  \<^verbatim>\<open>normpath\<close> leaves alone.
\<close>

theorem absolute_build_dir_idempotent:
  assumes "startswith_sep build_dir"
  shows "compute_parameters_with_absolute_paths
           (snd (compute_parameters_with_absolute_paths st r build_dir))
           (fst (compute_parameters_with_absolute_paths st r build_dir)) build_dir
         = compute_parameters_with_absolute_paths st r build_dir"
  using assms by (simp add: compute_parameters_eq rewritten_idem comp_def)

theorem absolute_build_dir_idempotent_witness:
  "startswith_sep ''/build''
   \<and> compute_parameters_with_absolute_paths (empty_store(0 := [''-Ilib''])) 0 ''/build''
       = (0, empty_store(0 := [''-I/build/lib'']))
   \<and> compute_parameters_with_absolute_paths (empty_store(0 := [''-I/build/lib''])) 0 ''/build''
       = (0, empty_store(0 := [''-I/build/lib'']))"
proof -
  have a: "startswith_sep ''/build''"
    by (simp add: startswith_sep_def)
  have c: "compute_parameters_with_absolute_paths (empty_store(0 := [''-Ilib''])) 0 ''/build''
       = (0, empty_store(0 := [''-I/build/lib'']))"
    by (simp add: compute_parameters_eq rewritten_example)
  show ?thesis
    using absolute_build_dir_idempotent [OF a, of "empty_store(0 := [''-Ilib''])" 0] a c
    by simp
qed


end
